theory Spec2Isabelle
  imports Complex_Main "HOL-Library.Word"
begin

section \<open>The region model of \<^verbatim>\<open>region.py\<close>\<close>

text \<open>
  \<^verbatim>\<open>region.py\<close> defines two \<^verbatim>\<open>attr\<close> classes, \<^verbatim>\<open>Rectangle\<close> and its subclass
  \<^verbatim>\<open>Region\<close>, and two module-level functions. Python attributes are untyped: the same
  class holds Python integers when it is built from pixel coordinates, \<^verbatim>\<open>numpy.uint16\<close>
  scalars when it is decoded from an array, and JSON values when it is decoded from a
  mapping. The records below therefore take the type of each family of attributes as a
  parameter: \<open>'a\<close> for the coordinates and the mass, \<open>'f\<close> for the frame number,
  \<open>'v\<close> for the pixel variance and \<open>'b\<close> for the blank flag. Python's \<^verbatim>\<open>None\<close> in
  \<^verbatim>\<open>frame_number\<close> and \<^verbatim>\<open>pixel_variance\<close> is \<open>None\<close>. Methods mutate \<^verbatim>\<open>self\<close>; the
  model returns the updated record. Every exception is a value of \<open>error\<close>.
\<close>

datatype error = AssertionError | NameError | KeyError | IndexError | TypeError | ValueError

subsection \<open>Rectangle\<close>

record 'a rectangle =
  x :: 'a
  y :: 'a
  width :: 'a
  height :: 'a

text \<open>The read-only properties \<^verbatim>\<open>left\<close>, \<^verbatim>\<open>top\<close>, \<^verbatim>\<open>right\<close>, \<^verbatim>\<open>bottom\<close>.\<close>

definition left :: "('a, 'z) rectangle_scheme \<Rightarrow> 'a" where
  "left self = x self"

definition top' :: "('a, 'z) rectangle_scheme \<Rightarrow> 'a" where
  "top' self = y self"

definition right :: "('a::plus, 'z) rectangle_scheme \<Rightarrow> 'a" where
  "right self = x self + width self"

definition bottom :: "('a::plus, 'z) rectangle_scheme \<Rightarrow> 'a" where
  "bottom self = y self + height self"








subsection \<open>Region\<close>

record ('a, 'f, 'v, 'b) region = "'a rectangle" +
  mass :: 'a
  frame_number :: "'f option"
  pixel_variance :: "'v option"
  id' :: int
  was_cropped :: bool
  blank :: 'b
  is_along_border :: bool

text \<open>
  The constructor with the attribute defaults of the class: \<^verbatim>\<open>mass\<close>, \<^verbatim>\<open>frame_number\<close>,
  \<^verbatim>\<open>pixel_variance\<close> and \<^verbatim>\<open>id\<close> are 0, the three flags are \<^verbatim>\<open>False\<close>.
\<close>

definition Region :: "'a \<Rightarrow> 'a \<Rightarrow> 'a \<Rightarrow> 'a \<Rightarrow> ('a::zero, 'f::zero, 'v::zero, bool) region" where
  "Region x0 y0 w h =
     \<lparr>x = x0, y = y0, width = w, height = h,
      mass = 0, frame_number = Some 0, pixel_variance = Some 0, id' = 0,
      was_cropped = False, blank = False, is_along_border = False\<rparr>"

definition set_is_along_border ::
  "('a::{plus,minus,ord}, 'f, 'v, 'b) region \<Rightarrow> ('a, 'w) rectangle_scheme \<Rightarrow> 'a
     \<Rightarrow> ('a, 'f, 'v, 'b) region" where
  "set_is_along_border self bounds edge =
     self\<lparr>is_along_border :=
       (was_cropped self
        \<or> x self \<le> x bounds + edge
        \<or> y self \<le> y bounds + edge
        \<or> right self \<ge> width bounds - edge
        \<or> bottom self \<ge> height bounds - edge)\<rparr>"

subsection \<open>The distance between two regions\<close>





subsection \<open>The array encoding\<close>

text \<open>
  \<^verbatim>\<open>numpy.uint16\<close> converts the scalars it is given to 16-bit unsigned integers. What it
  does depends on the type of the scalar, so the two functions that call it take the
  conversion as a parameter. On a Python integer it keeps the low 16 bits (NumPy 1.x, the
  version the repository was written for); on a value that is a \<^verbatim>\<open>uint16\<close> already it is
  the identity.
\<close>

definition np_uint16_int :: "int \<Rightarrow> 16 word" where
  "np_uint16_int i = word_of_int i"

definition np_uint16_u16 :: "16 word \<Rightarrow> 16 word" where
  "np_uint16_u16 w = w"

text \<open>
  \<^verbatim>\<open>to_array\<close> builds the list of seven scalars and converts it. A \<^verbatim>\<open>frame_number\<close> of
  \<^verbatim>\<open>None\<close> cannot be converted: NumPy raises \<^verbatim>\<open>TypeError\<close>.
\<close>

definition to_array ::
  "('a \<Rightarrow> 16 word) \<Rightarrow> ('a::{plus,zero,one}, 'a, 'v, bool) region \<Rightarrow> error + 16 word list" where
  "to_array np_uint16 self =
     (case frame_number self of
        None \<Rightarrow> Inl TypeError
      | Some frame \<Rightarrow>
          Inr (map np_uint16
                 [left self, top' self, right self, bottom self, frame, mass self,
                  if blank self then 1 else 0]))"

text \<open>
  \<^verbatim>\<open>region_from_array\<close> reads indices 0 to 3 unconditionally (\<^verbatim>\<open>IndexError\<close> on a shorter
  input) and the three trailing fields only when the input is long enough. The
  differences are computed in the element type of the input: on a \<^verbatim>\<open>uint16\<close> array they
  wrap around.
\<close>

definition region_from_array ::
  "('a \<Rightarrow> 16 word) \<Rightarrow> 'a list \<Rightarrow> error + ('a::{minus,zero,one}, 16 word, 'v::zero, bool) region" where
  "region_from_array np_uint16 region_bounds =
     (if length region_bounds < 4 then Inl IndexError
      else
        let w = region_bounds ! 2 - region_bounds ! 0;
            h = region_bounds ! 3 - region_bounds ! 1;
            frame = (if length region_bounds > 4 then Some (region_bounds ! 4) else None);
            m = (if length region_bounds > 5 then region_bounds ! 5 else 0);
            b = (if length region_bounds > 6 then region_bounds ! 6 = 1 else False)
        in Inr \<lparr>x = region_bounds ! 0, y = region_bounds ! 1, width = w, height = h,
                mass = m,
                frame_number = (case frame of None \<Rightarrow> None | Some fr \<Rightarrow> Some (np_uint16 fr)),
                pixel_variance = Some 0, id' = 0, was_cropped = False, blank = b,
                is_along_border = False\<rparr>)"

section \<open>Rectangle edges\<close>






section \<open>Cropping\<close>












section \<open>The border flag\<close>

text \<open>
  Claim C8. After \<^verbatim>\<open>set_is_along_border(bounds, edge)\<close> the flag \<^verbatim>\<open>is_along_border\<close> is
  \<^verbatim>\<open>was_cropped or x <= bounds.x + edge or y <= bounds.y + edge or
  right >= bounds.width - edge or bottom >= bounds.height - edge\<close>, and no other attribute
  changes; a region with \<^verbatim>\<open>was_cropped\<close> set gets the flag whatever its position;
  \<^verbatim>\<open>Region(5, 5, 2, 2)\<close> against \<^verbatim>\<open>Rectangle(0, 0, 10, 10)\<close> with edge 0 gets
  \<^verbatim>\<open>False\<close>, and \<^verbatim>\<open>True\<close> once \<^verbatim>\<open>was_cropped\<close> is set.
\<close>

theorem set_is_along_border_formula:
  fixes r :: "('a::{plus,minus,ord}, 'f, 'v, 'b) region"
  shows "is_along_border (set_is_along_border r B e)
         = (was_cropped r \<or> x r \<le> x B + e \<or> y r \<le> y B + e
            \<or> right r \<ge> width B - e \<or> bottom r \<ge> height B - e)
       \<and> set_is_along_border r B e = r\<lparr>is_along_border := is_along_border (set_is_along_border r B e)\<rparr>
       \<and> is_along_border (set_is_along_border (r\<lparr>was_cropped := True\<rparr>) B e)
       \<and> \<not> is_along_border
             (set_is_along_border (Region 5 5 2 2 :: (int, int, rat, bool) region)
                \<lparr>x = 0, y = 0, width = 10, height = 10\<rparr> 0)
       \<and> is_along_border
             (set_is_along_border ((Region 5 5 2 2 :: (int, int, rat, bool) region)\<lparr>was_cropped := True\<rparr>)
                \<lparr>x = 0, y = 0, width = 10, height = 10\<rparr> 0)"
  by (simp add: set_is_along_border_def Region_def right_def bottom_def)

section \<open>The two defaults of the frame number\<close>

text \<open>
  Claim C10. A region built by the constructor without a frame number has
  \<^verbatim>\<open>frame_number\<close> 0, not \<^verbatim>\<open>None\<close>; \<^verbatim>\<open>region_from_array\<close> on an input of exactly four
  elements succeeds and gives a region whose \<^verbatim>\<open>frame_number\<close> is \<^verbatim>\<open>None\<close>.
\<close>

theorem frame_number_defaults_differ:
  fixes bs :: "'a::{minus,zero,one} list"
  assumes "length bs = 4"
  shows "frame_number (Region a b c d :: ('c::zero, 'f::zero, 'v::zero, bool) region) = Some 0
       \<and> (\<exists>r :: ('a, 16 word, 'w::zero, bool) region.
             region_from_array conv bs = Inr r \<and> frame_number r = None)
       \<and> frame_number (Region a b c d :: ('c, 'f, 'v, bool) region) \<noteq> None"
  using assms by (simp add: Region_def region_from_array_def Let_def)

theorem frame_number_defaults_differ_witness:
  "length [0, 0, 10, 10 :: int] = 4
   \<and> frame_number (Region 0 0 10 10 :: (int, int, rat, bool) region) = Some 0
   \<and> region_from_array np_uint16_int [0, 0, 10, 10]
       = Inr (\<lparr>x = 0, y = 0, width = 10, height = 10, mass = 0, frame_number = None,
               pixel_variance = Some 0, id' = 0, was_cropped = False, blank = False,
               is_along_border = False\<rparr> :: (int, 16 word, rat, bool) region)"
  using frame_number_defaults_differ [of "[0, 0, 10, 10 :: int]" 0 0 10 10 np_uint16_int]
  by (simp add: Region_def region_from_array_def Let_def)

section \<open>The distance between equal regions\<close>







end
